theory Spec2Isabelle
  imports
    Complex_Main
    "HOL-Library.Finite_Map"
    "HOL-Library.List_Lexorder"
    "HOL-Library.Char_ord"
begin

section \<open>JSON values as the handlers of server.js see them\<close>

text \<open>
  Request bodies, stored users and response envelopes are JSON values. A JavaScript
  object is a finite map from property names to values: the order in which the keys are
  written to the file is not observed by any handler. \<open>JNum\<close> holds a finite double,
  read as a real (\<open>0\<close> and \<open>-0\<close> are the same value, as they are for \<open>===\<close> and for
  truthiness). \<open>JInfinity\<close> and \<open>JNegInfinity\<close> are the numbers \<open>Infinity\<close> and
  \<open>-Infinity\<close>, which \<open>JSON.parse\<close> yields for a literal beyond the range of doubles such
  as \<open>1e400\<close>; it yields no \<open>NaN\<close>. A property read yields \<open>json option\<close>: \<open>None\<close> is
  JavaScript's \<open>undefined\<close>.
\<close>

datatype json =
    JNull
  | JBool bool
  | JNum real
  | JInfinity
  | JNegInfinity
  | JStr string
  | JArr "json list"
  | JObj "(string, json) fmap"

type_synonym obj = "(string, json) fmap"

text \<open>JavaScript truthiness, used by \<open>!name\<close>, \<open>!email\<close>, \<open>age || null\<close>, \<open>country || 'Unknown'\<close>.\<close>

fun truthy :: "json option \<Rightarrow> bool" where
  "truthy None = False"
| "truthy (Some JNull) = False"
| "truthy (Some (JBool b)) = b"
| "truthy (Some (JNum x)) = (x \<noteq> 0)"
| "truthy (Some JInfinity) = True"
| "truthy (Some JNegInfinity) = True"
| "truthy (Some (JStr s)) = (s \<noteq> [])"
| "truthy (Some (JArr xs)) = True"
| "truthy (Some (JObj m)) = True"

text \<open>
  Strict equality \<open>===\<close>. Primitives (null, booleans, numbers, strings) compare by
  value. Arrays and objects compare by reference, and a value parsed from the request is
  never the same reference as one parsed from the file, so the comparison of two such
  values is false.
\<close>

definition primitive :: "json \<Rightarrow> bool" where
  "primitive v = (case v of JArr xs \<Rightarrow> False | JObj m \<Rightarrow> False | _ \<Rightarrow> True)"

fun strict_eq :: "json option \<Rightarrow> json option \<Rightarrow> bool" where
  "strict_eq None None = True"
| "strict_eq None (Some w) = False"
| "strict_eq (Some v) None = False"
| "strict_eq (Some v) (Some w) = (primitive v \<and> v = w)"

text \<open>The operator \<open>a || d\<close> with a JSON default \<open>d\<close>.\<close>

definition or_else :: "json option \<Rightarrow> json \<Rightarrow> json" where
  "or_else a d = (case a of None \<Rightarrow> d | Some v \<Rightarrow> if truthy (Some v) then v else d)"

text \<open>
  What \<open>JSON.stringify\<close> makes of a value, read as a JSON value again: a non-finite number
  is written as \<open>null\<close>, inside arrays and objects too, and everything else is written as
  it is. The file and every response body carry values in this form.
\<close>

primrec serialised :: "json \<Rightarrow> json" where
  "serialised JNull = JNull"
| "serialised (JBool b) = JBool b"
| "serialised (JNum x) = JNum x"
| "serialised JInfinity = JNull"
| "serialised JNegInfinity = JNull"
| "serialised (JStr s) = JStr s"
| "serialised (JArr xs) = JArr (map serialised xs)"
| "serialised (JObj m) = JObj (fmmap serialised m)"

definition serialised_obj :: "obj \<Rightarrow> obj" where
  "serialised_obj user = fmmap serialised user"

text \<open>Decimal rendering of an integer, as \<open>Number.prototype.toString\<close> gives for \<open>Date.now()\<close>.\<close>

fun digits :: "nat \<Rightarrow> string" where
  "digits n =
     (if n < 10 then [''0123456789'' ! n]
      else digits (n div 10) @ [''0123456789'' ! (n mod 10)])"

declare digits.simps [simp del]

definition toString :: "int \<Rightarrow> string" where
  "toString i = (if i < 0 then CHR ''-'' # digits (nat (- i)) else digits (nat i))"

section \<open>Request bodies\<close>

text \<open>
  \<open>app.use(express.json())\<close> runs the body parser in its default strict mode: \<open>req.body\<close>
  is an object or an array, and a request without a JSON body has the empty object.
\<close>

datatype body = BObj obj | BArr "json list"

text \<open>
  The destructuring \<open>const { name, email, age, country } = req.body\<close> reads four named
  properties; an array has none of them.
\<close>

fun field :: "body \<Rightarrow> string \<Rightarrow> json option" where
  "field (BObj m) k = fmlookup m k"
| "field (BArr xs) k = None"

text \<open>
  The own enumerable properties that the spread \<open>...updateData\<close> copies: the properties of
  an object, the indexed elements of an array under their decimal indices.
\<close>

fun own_entries :: "body \<Rightarrow> obj" where
  "own_entries (BObj m) = m"
| "own_entries (BArr xs) = fmap_of_list (zip (map digits [0..<length xs]) xs)"

section \<open>The environment of one request\<close>

text \<open>
  What the handler obtains from outside during one request: the exception object's
  message, the clock, the random generator, and whether \<open>fs.writeFile\<close> succeeds.
\<close>

datatype js_error = Error string

datatype write_outcome =
    Written
  | Rejected js_error
  | Torn js_error

text \<open>
  \<open>date_now\<close> is the value of \<open>Date.now()\<close> in \<open>generateId\<close>; \<open>random_suffix\<close> is the value
  of \<open>Math.random().toString(36).substr(2, 5)\<close>; \<open>iso_first\<close> and \<open>iso_second\<close> are the values
  of the first and the second \<open>new Date().toISOString()\<close> of the request (create evaluates
  two, update one). \<open>write_result\<close> is the fate of \<open>fs.writeFile\<close>: it resolves, or it rejects
  leaving the file as it was, or it rejects after truncating the file.
\<close>

record env =
  date_now :: int
  random_suffix :: string
  iso_first :: string
  iso_second :: string
  write_result :: write_outcome

section \<open>The store: users.json\<close>

text \<open>
  The file either makes the \<open>try\<close> block of \<open>readUsers\<close> throw (it is missing, cannot be
  read, or does not parse) or it parses. A file that parses holds the text that
  \<open>JSON.stringify\<close> gives for an array of objects, which is what every \<open>writeUsers\<close> call
  of the handlers stores: \<open>Stored users\<close> is the file with the text
  \<open>JSON.stringify(users, null, 2)\<close>.
\<close>

datatype db_file =
    Unreadable js_error
  | Stored "obj list"

text \<open>
  The body of the \<open>try\<close> block: \<open>JSON.parse(await fs.readFile(DB_FILE, 'utf8'))\<close>. Parsing
  the text of a sequence yields the sequence as serialised.
\<close>

fun read_and_parse :: "db_file \<Rightarrow> js_error + obj list" where
  "read_and_parse (Unreadable e) = Inl e"
| "read_and_parse (Stored users) = Inr (map serialised_obj users)"

definition readUsers :: "db_file \<Rightarrow> obj list" where
  "readUsers f = (case read_and_parse f of Inl e \<Rightarrow> [] | Inr users \<Rightarrow> users)"

text \<open>
  \<open>writeUsers\<close> writes \<open>JSON.stringify(users, null, 2)\<close> in place of the whole file. That
  text is the text of the serialised sequence, in which a non-finite number has become
  \<open>null\<close>. It has no \<open>try\<close>: a rejection of \<open>fs.writeFile\<close> reaches the caller. The
  second component is the file afterwards; a truncated file no longer parses.
\<close>

fun writeUsers :: "write_outcome \<Rightarrow> db_file \<Rightarrow> obj list \<Rightarrow> (js_error + unit) \<times> db_file" where
  "writeUsers Written f users = (Inr (), Stored (map serialised_obj users))"
| "writeUsers (Rejected e) f users = (Inl e, f)"
| "writeUsers (Torn e) f users = (Inl e, Unreadable (Error ''Unexpected end of JSON input''))"

definition generateId :: "env \<Rightarrow> string" where
  "generateId e = toString (date_now e) @ random_suffix e"

section \<open>Responses\<close>

text \<open>
  \<open>res.status(code).json({...})\<close>: a status code and the object as \<open>res.json\<close> sends it,
  which is its \<open>JSON.stringify\<close> text.
\<close>

record response =
  status :: nat
  payload :: json

definition json_response :: "nat \<Rightarrow> (string \<times> json) list \<Rightarrow> response" where
  "json_response code props =
     \<lparr>status = code, payload = serialised (JObj (fmap_of_list props))\<rparr>"

text \<open>The property of a response envelope, \<open>None\<close> when it has none.\<close>

definition envelope :: "response \<Rightarrow> string \<Rightarrow> json option" where
  "envelope r k = (case payload r of JObj m \<Rightarrow> fmlookup m k | _ \<Rightarrow> None)"

text \<open>The \<open>catch\<close> block of a handler: status 500 with the handler's message and \<open>error.message\<close>.\<close>

fun server_error :: "string \<Rightarrow> js_error \<Rightarrow> response" where
  "server_error msg (Error m) =
     json_response 500 [(''success'', JBool False), (''message'', JStr msg), (''error'', JStr m)]"

definition not_found :: response where
  "not_found = json_response 404 [(''success'', JBool False), (''message'', JStr ''User not found'')]"

section \<open>The handlers\<close>

text \<open>\<open>Array.prototype.findIndex\<close>; \<open>None\<close> is the result \<open>-1\<close>.\<close>

fun findIndex :: "('a \<Rightarrow> bool) \<Rightarrow> 'a list \<Rightarrow> nat option" where
  "findIndex P [] = None"
| "findIndex P (x # xs) =
     (if P x then Some 0 else (case findIndex P xs of None \<Rightarrow> None | Some i \<Rightarrow> Some (Suc i)))"

text \<open>The callback \<open>user => user._id === userId\<close>; \<open>req.params.id\<close> is a string.\<close>

definition has_id :: "string \<Rightarrow> obj \<Rightarrow> bool" where
  "has_id userId user = strict_eq (fmlookup user ''_id'') (Some (JStr userId))"

text \<open>\<open>app.get('/users')\<close>.\<close>

definition get_users :: "db_file \<Rightarrow> response \<times> db_file" where
  "get_users f =
     (let users = readUsers f in
      (json_response 200
         [(''success'', JBool True),
          (''count'', JNum (real (length users))),
          (''data'', JArr (map JObj users))], f))"

text \<open>
  \<open>app.post('/users')\<close>. An \<open>undefined\<close> name or email is falsy, so the \<open>None\<close> cases
  take the branch of the first \<open>if\<close>.
\<close>

definition required_fields :: response where
  "required_fields =
     json_response 400
       [(''success'', JBool False), (''message'', JStr ''Name and email are required fields'')]"

definition email_exists :: response where
  "email_exists =
     json_response 400 [(''success'', JBool False), (''message'', JStr ''Email already exists'')]"

definition newUser :: "env \<Rightarrow> json \<Rightarrow> json \<Rightarrow> json option \<Rightarrow> json option \<Rightarrow> obj" where
  "newUser e name email age country =
     fmap_of_list
       [(''_id'', JStr (generateId e)),
        (''name'', name),
        (''email'', email),
        (''age'', or_else age JNull),
        (''country'', or_else country (JStr ''Unknown'')),
        (''createdAt'', JStr (iso_first e)),
        (''updatedAt'', JStr (iso_second e))]"

definition post_users :: "env \<Rightarrow> db_file \<Rightarrow> body \<Rightarrow> response \<times> db_file" where
  "post_users e f b =
     (case (field b ''name'', field b ''email'') of
        (Some name, Some email) \<Rightarrow>
          if \<not> truthy (Some name) \<or> \<not> truthy (Some email) then (required_fields, f)
          else
            (let users = readUsers f in
             case find (\<lambda>user. strict_eq (fmlookup user ''email'') (Some email)) users of
               Some existingUser \<Rightarrow> (email_exists, f)
             | None \<Rightarrow>
                 (let new = newUser e name email (field b ''age'') (field b ''country'');
                      users' = users @ [new]
                  in case writeUsers (write_result e) f users' of
                       (Inl err, f') \<Rightarrow> (server_error ''Error creating user'' err, f')
                     | (Inr u, f') \<Rightarrow>
                         (json_response 201
                            [(''success'', JBool True),
                             (''message'', JStr ''User created successfully''),
                             (''data'', JObj new)], f')))
      | _ \<Rightarrow> (required_fields, f))"

text \<open>
  \<open>app.put('/users/:id')\<close>. The object literal
  \<open>{ ...users[userIndex], ...updateData, updatedAt: new Date().toISOString() }\<close> copies the
  stored properties, then the body's over them, then sets \<open>updatedAt\<close>.
\<close>

definition merged :: "env \<Rightarrow> obj \<Rightarrow> body \<Rightarrow> obj" where
  "merged e user updateData =
     fmupd ''updatedAt'' (JStr (iso_first e)) (user ++\<^sub>f own_entries updateData)"

definition put_user :: "env \<Rightarrow> db_file \<Rightarrow> string \<Rightarrow> body \<Rightarrow> response \<times> db_file" where
  "put_user e f userId updateData =
     (let users = readUsers f in
      case findIndex (has_id userId) users of
        None \<Rightarrow> (not_found, f)
      | Some userIndex \<Rightarrow>
          (let users' = users[userIndex := merged e (users ! userIndex) updateData]
           in case writeUsers (write_result e) f users' of
                (Inl err, f') \<Rightarrow> (server_error ''Error updating user'' err, f')
              | (Inr u, f') \<Rightarrow>
                  (json_response 200
                     [(''success'', JBool True),
                      (''message'', JStr ''User updated successfully''),
                      (''data'', JObj (users' ! userIndex))], f')))"

text \<open>
  \<open>app.delete('/users/:id')\<close>. \<open>users.splice(userIndex, 1)[0]\<close> removes the element at
  \<open>userIndex\<close> from the array and yields it.
\<close>

definition delete_user :: "env \<Rightarrow> db_file \<Rightarrow> string \<Rightarrow> response \<times> db_file" where
  "delete_user e f userId =
     (let users = readUsers f in
      case findIndex (has_id userId) users of
        None \<Rightarrow> (not_found, f)
      | Some userIndex \<Rightarrow>
          (let deletedUser = users ! userIndex;
               users' = take userIndex users @ drop (Suc userIndex) users
           in case writeUsers (write_result e) f users' of
                (Inl err, f') \<Rightarrow> (server_error ''Error deleting user'' err, f')
              | (Inr u, f') \<Rightarrow>
                  (json_response 200
                     [(''success'', JBool True),
                      (''message'', JStr ''User deleted successfully''),
                      (''data'', JObj deletedUser)], f')))"

section \<open>Requests in sequence\<close>

datatype request =
    GET_users
  | POST_users body
  | PUT_user string body
  | DELETE_user string

fun handle :: "env \<Rightarrow> db_file \<Rightarrow> request \<Rightarrow> response \<times> db_file" where
  "handle e f GET_users = get_users f"
| "handle e f (POST_users b) = post_users e f b"
| "handle e f (PUT_user userId b) = put_user e f userId b"
| "handle e f (DELETE_user userId) = delete_user e f userId"

text \<open>Requests served one after the other, each in its own environment.\<close>

fun run :: "db_file \<Rightarrow> (env \<times> request) list \<Rightarrow> response list \<times> db_file" where
  "run f [] = ([], f)"
| "run f ((e, r) # rest) =
     (case handle e f r of (resp, f') \<Rightarrow>
        (case run f' rest of (resps, f'') \<Rightarrow> (resp # resps, f'')))"

section \<open>Sample data\<close>

text \<open>A stored user, an environment whose write succeeds, and request bodies.\<close>

definition user_ada :: obj where
  "user_ada = fmap_of_list
     [(''_id'', JStr ''1700000000000abcde''),
      (''name'', JStr ''Ada''),
      (''email'', JStr ''ada@example.com''),
      (''age'', JNum 36),
      (''country'', JStr ''UK''),
      (''createdAt'', JStr ''2023-11-14T22:13:20.000Z''),
      (''updatedAt'', JStr ''2023-11-14T22:13:20.000Z'')]"

definition env_ok :: env where
  "env_ok = \<lparr>date_now = 1700000060000, random_suffix = ''k3x9q'',
             iso_first = ''2023-11-14T22:14:20.000Z'', iso_second = ''2023-11-14T22:14:20.001Z'',
             write_result = Written\<rparr>"

definition body_name_only :: body where
  "body_name_only = BObj (fmap_of_list [(''name'', JStr ''Bob'')])"

definition body_ada_email :: body where
  "body_ada_email = BObj (fmap_of_list [(''name'', JStr ''Bob''), (''email'', JStr ''ada@example.com'')])"

definition body_overwrite :: body where
  "body_overwrite = BObj (fmap_of_list
     [(''_id'', JStr ''evil''),
      (''createdAt'', JStr ''1999-01-01T00:00:00.000Z''),
      (''updatedAt'', JStr ''1999-01-01T00:00:00.000Z'')])"

text \<open>
  Bodies with the number that \<open>JSON.parse\<close> yields for the literal \<open>1e400\<close>, an array
  body, an environment whose clock is a minute behind the stamps of \<open>user_ada\<close>, and one
  whose write is rejected.
\<close>

definition body_overflow :: body where
  "body_overflow = BObj (fmap_of_list [(''age'', JInfinity)])"

definition body_big :: body where
  "body_big = BObj (fmap_of_list
     [(''name'', JStr ''Cy''), (''email'', JStr ''cy@example.com''),
      (''age'', JInfinity), (''country'', JStr ''FR'')])"

definition body_array :: body where
  "body_array = BArr [JStr ''a'', JInfinity]"


definition env_rejected :: env where
  "env_rejected = \<lparr>date_now = 1700000060000, random_suffix = ''k3x9q'',
                   iso_first = ''2023-11-14T22:14:20.000Z'', iso_second = ''2023-11-14T22:14:20.001Z'',
                   write_result = Rejected (Error ''EACCES: permission denied'')\<rparr>"

definition no_file :: db_file where
  "no_file = Unreadable (Error ''ENOENT: no such file or directory'')"

definition body_ada :: body where
  "body_ada = BObj (fmap_of_list
     [(''name'', JStr ''Ada''), (''email'', JStr ''ada@example.com''),
      (''age'', JNum 36), (''country'', JStr ''UK'')])"

definition body_falsy :: body where
  "body_falsy = BObj (fmap_of_list
     [(''name'', JStr ''Bob''), (''email'', JStr ''bob@example.com''),
      (''age'', JNum 0), (''country'', JStr '''')])"

text \<open>
  A create request that passes both checks of the handler, in an environment whose write
  succeeds: name and email are truthy and no stored user has a strictly equal email.
\<close>

definition creatable :: "env \<Rightarrow> db_file \<Rightarrow> body \<Rightarrow> bool" where
  "creatable e f b \<longleftrightarrow>
     truthy (field b ''name'') \<and> truthy (field b ''email'')
     \<and> (\<forall>u\<in>set (readUsers f). \<not> strict_eq (fmlookup u ''email'') (field b ''email''))
     \<and> write_result e = Written"

text \<open>The file after a first create, and a run in which an update copies another user's id.\<close>

definition after_ada :: db_file where
  "after_ada = snd (post_users env_ok no_file body_ada)"

definition env_later :: env where
  "env_later = \<lparr>date_now = 1700000120000, random_suffix = ''zz1'',
                iso_first = ''2023-11-14T22:15:20.000Z'', iso_second = ''2023-11-14T22:15:20.000Z'',
                write_result = Written\<rparr>"

definition after_bob :: db_file where
  "after_bob = snd (post_users env_later no_file body_falsy)"

definition body_take_id :: body where
  "body_take_id = BObj (fmap_of_list [(''_id'', JStr ''1700000060000k3x9q'')])"

definition dup_steps :: "(env \<times> request) list" where
  "dup_steps =
     [(env_ok, POST_users body_ada),
      (env_later, POST_users body_falsy),
      (env_later, PUT_user ''1700000120000zz1'' body_take_id),
      (env_later, DELETE_user ''1700000060000k3x9q''),
      (env_later, GET_users)]"

section \<open>Runs and the clock\<close>





definition create_steps :: "(env \<times> body) list \<Rightarrow> (env \<times> request) list" where
  "create_steps cs = map (\<lambda>(e, b). (e, POST_users b)) cs"


definition two_creates :: "(env \<times> body) list" where
  "two_creates = [(env_ok, body_ada), (env_later, body_falsy)]"

section \<open>Auxiliary facts about the handlers\<close>

lemma findIndex_None_iff: "findIndex P xs = None \<longleftrightarrow> (\<forall>x\<in>set xs. \<not> P x)"
  by (induction xs) (auto split: option.splits)

lemma findIndex_Some:
  "findIndex P xs = Some i \<Longrightarrow> i < length xs \<and> P (xs ! i) \<and> (\<forall>j<i. \<not> P (xs ! j))"
proof (induction xs arbitrary: i)
  case Nil
  then show ?case by simp
next
  case (Cons x xs)
  show ?case
  proof (cases "P x")
    case True
    with Cons.prems show ?thesis by simp
  next
    case False
    with Cons.prems obtain k where k: "findIndex P xs = Some k" "i = Suc k"
      by (auto split: option.splits)
    from Cons.IH [OF k(1)] False k(2) show ?thesis
      by (auto simp: less_Suc_eq_0_disj)
  qed
qed

lemma truthy_Some: "truthy a \<Longrightarrow> \<exists>v. a = Some v"
  by (cases a) auto

text \<open>Serialising twice is serialising once, so what is read from the file is in serialised form.\<close>

lemma serialised_idem: "serialised (serialised v) = serialised v"
proof (induction v)
  case (JArr xs)
  then show ?case by (simp cong: map_cong)
next
  case (JObj m)
  have "fmmap (serialised \<circ> serialised) m = fmmap serialised m"
    by (rule fmap.map_cong) (simp_all add: JObj)
  then show ?case by (simp add: fmap.map_comp)
qed simp_all

lemma serialised_obj_idem: "serialised_obj (serialised_obj u) = serialised_obj u"
proof -
  have "fmmap (serialised \<circ> serialised) u = fmmap serialised u"
    by (rule fmap.map_cong) (simp_all add: serialised_idem)
  then show ?thesis by (simp add: serialised_obj_def fmap.map_comp)
qed

lemma fmlookup_serialised_obj:
  "fmlookup (serialised_obj u) k = map_option serialised (fmlookup u k)"
  by (simp add: serialised_obj_def)

lemma readUsers_Stored: "readUsers (Stored us) = map serialised_obj us"
  by (simp add: readUsers_def)

lemma readUsers_serialised: "map serialised_obj (readUsers f) = readUsers f"
  by (cases f) (simp_all add: readUsers_def serialised_obj_idem)


lemma readUsers_nth_serialised:
  assumes "i < length (readUsers f)"
  shows "serialised_obj (readUsers f ! i) = readUsers f ! i"
proof -
  from assms have "map serialised_obj (readUsers f) ! i = serialised_obj (readUsers f ! i)"
    by simp
  then show ?thesis by (simp add: readUsers_serialised)
qed

lemma readUsers_lookup_serialised:
  assumes "i < length (readUsers f)"
  shows "map_option serialised (fmlookup (readUsers f ! i) k) = fmlookup (readUsers f ! i) k"
  using readUsers_nth_serialised [OF assms] fmlookup_serialised_obj [of "readUsers f ! i" k]
  by simp

lemma status_json_response: "status (json_response code props) = code"
  by (simp add: json_response_def)

lemma envelope_json_response:
  "envelope (json_response code props) k = map_option serialised (map_of props k)"
  by (simp add: envelope_def json_response_def fmlookup_of_list)

lemma status_server_error: "status (server_error msg err) = 500"
  by (cases err) (simp add: status_json_response)

lemma envelope_server_error: "envelope (server_error msg (Error m)) ''error'' = Some (JStr m)"
  by (simp add: envelope_json_response)

text \<open>The three handlers that write, on their successful path.\<close>

lemma post_users_created:
  assumes "field b ''name'' = Some name" and "field b ''email'' = Some email"
    and "truthy (Some name)" and "truthy (Some email)"
    and "\<forall>u\<in>set (readUsers f). \<not> strict_eq (fmlookup u ''email'') (Some email)"
    and "write_result e = Written"
  shows "post_users e f b =
    (json_response 201
       [(''success'', JBool True),
        (''message'', JStr ''User created successfully''),
        (''data'', JObj (newUser e name email (field b ''age'') (field b ''country'')))],
     Stored (map serialised_obj
       (readUsers f @ [newUser e name email (field b ''age'') (field b ''country'')])))"
proof -
  have "find (\<lambda>user. strict_eq (fmlookup user ''email'') (Some email)) (readUsers f) = None"
    using assms(5) by (simp add: find_None_iff)
  then show ?thesis
    using assms(1-4,6) by (simp add: post_users_def Let_def)
qed

lemma put_user_updated:
  assumes "findIndex (has_id userId) (readUsers f) = Some i" and "write_result e = Written"
  shows "put_user e f userId b =
    (json_response 200
       [(''success'', JBool True),
        (''message'', JStr ''User updated successfully''),
        (''data'', JObj (merged e (readUsers f ! i) b))],
     Stored (map serialised_obj ((readUsers f)[i := merged e (readUsers f ! i) b])))"
proof -
  from findIndex_Some [OF assms(1)] have "i < length (readUsers f)" by simp
  then show ?thesis
    using assms by (simp add: put_user_def Let_def)
qed

lemma delete_user_deleted:
  assumes "findIndex (has_id userId) (readUsers f) = Some i" and "write_result e = Written"
  shows "delete_user e f userId =
    (json_response 200
       [(''success'', JBool True),
        (''message'', JStr ''User deleted successfully''),
        (''data'', JObj (readUsers f ! i))],
     Stored (map serialised_obj (take i (readUsers f) @ drop (Suc i) (readUsers f))))"
  using assms by (simp add: delete_user_def Let_def)

lemma fmlookup_merged:
  "fmlookup (merged e user b) k =
     (if k = ''updatedAt'' then Some (JStr (iso_first e))
      else case fmlookup (own_entries b) k of Some v \<Rightarrow> Some v | None \<Rightarrow> fmlookup user k)"
  by (auto simp: merged_def fmlookup_dom_iff split: option.splits)

text \<open>The same handlers when \<open>fs.writeFile\<close> rejects with the error \<open>err\<close>.\<close>

lemma post_users_write_failed:
  assumes "truthy (field b ''name'')" and "truthy (field b ''email'')"
    and "\<forall>u\<in>set (readUsers f). \<not> strict_eq (fmlookup u ''email'') (field b ''email'')"
    and "write_result e = Rejected err \<or> write_result e = Torn err"
  shows "fst (post_users e f b) = server_error ''Error creating user'' err"
proof -
  from truthy_Some [OF assms(1)] truthy_Some [OF assms(2)]
  obtain name email where ne: "field b ''name'' = Some name" "field b ''email'' = Some email"
    by blast
  with assms(3)
  have "find (\<lambda>user. strict_eq (fmlookup user ''email'') (Some email)) (readUsers f) = None"
    by (simp add: find_None_iff)
  with assms(1,2,4) ne show ?thesis
    by (auto simp: post_users_def Let_def)
qed

lemma put_user_write_failed:
  assumes "findIndex (has_id userId) (readUsers f) = Some i"
    and "write_result e = Rejected err \<or> write_result e = Torn err"
  shows "fst (put_user e f userId b) = server_error ''Error updating user'' err"
  using assms by (auto simp: put_user_def Let_def)

lemma delete_user_write_failed:
  assumes "findIndex (has_id userId) (readUsers f) = Some i"
    and "write_result e = Rejected err \<or> write_result e = Torn err"
  shows "fst (delete_user e f userId) = server_error ''Error deleting user'' err"
  using assms by (auto simp: delete_user_def Let_def)

lemma serialised_user_ada: "serialised_obj user_ada = user_ada"
  by (simp add: user_ada_def serialised_obj_def fmmap_fmupd)

lemma readUsers_user_ada: "readUsers (Stored [user_ada]) = [user_ada]"
  by (simp add: readUsers_def serialised_user_ada)

section \<open>The store\<close>

text \<open>
  C9. \<open>readUsers\<close> yields the empty sequence whenever reading or parsing the file throws,
  and no caller sees an error: the listing of such a file answers 200 with no users.
  \<open>writeUsers\<close> replaces the whole content, whatever it was, by the given sequence as
  \<open>JSON.stringify\<close> writes it when the write succeeds, and hands a rejection of the write to
  its caller: create, update and delete then answer 500 with the message of the error.
\<close>

theorem C9_store:
  "readUsers (Unreadable err) = []
   \<and> status (fst (get_users (Unreadable err))) = 200
   \<and> envelope (fst (get_users (Unreadable err))) ''count'' = Some (JNum 0)
   \<and> envelope (fst (get_users (Unreadable err))) ''data'' = Some (JArr [])
   \<and> readUsers (snd (writeUsers Written f users)) = map serialised_obj users
   \<and> snd (writeUsers Written f users) = snd (writeUsers Written f' users)
   \<and> fst (writeUsers (Rejected err) f users) = Inl err
   \<and> fst (writeUsers (Torn err) f users) = Inl err
   \<and> (write_result e = Rejected (Error m) \<or> write_result e = Torn (Error m) \<longrightarrow>
        (truthy (field b ''name'') \<and> truthy (field b ''email'')
           \<and> (\<forall>u\<in>set (readUsers f). \<not> strict_eq (fmlookup u ''email'') (field b ''email''))
         \<longrightarrow> status (fst (post_users e f b)) = 500
             \<and> envelope (fst (post_users e f b)) ''message'' = Some (JStr ''Error creating user'')
             \<and> envelope (fst (post_users e f b)) ''error'' = Some (JStr m))
        \<and> (findIndex (has_id userId) (readUsers f) = Some i
         \<longrightarrow> status (fst (put_user e f userId b)) = 500
             \<and> envelope (fst (put_user e f userId b)) ''message'' = Some (JStr ''Error updating user'')
             \<and> envelope (fst (put_user e f userId b)) ''error'' = Some (JStr m)
             \<and> status (fst (delete_user e f userId)) = 500
             \<and> envelope (fst (delete_user e f userId)) ''message'' = Some (JStr ''Error deleting user'')
             \<and> envelope (fst (delete_user e f userId)) ''error'' = Some (JStr m)))"
proof -
  have store: "readUsers (Unreadable err) = []"
    "readUsers (snd (writeUsers Written f users)) = map serialised_obj users"
    "snd (writeUsers Written f users) = snd (writeUsers Written f' users)"
    "fst (writeUsers (Rejected err) f users) = Inl err"
    "fst (writeUsers (Torn err) f users) = Inl err"
    by (simp_all add: readUsers_def serialised_obj_idem)
  have listing: "status (fst (get_users (Unreadable err))) = 200"
    "envelope (fst (get_users (Unreadable err))) ''count'' = Some (JNum 0)"
    "envelope (fst (get_users (Unreadable err))) ''data'' = Some (JArr [])"
    by (simp_all add: get_users_def readUsers_def status_json_response envelope_json_response)
  have post: "status (fst (post_users e f b)) = 500
             \<and> envelope (fst (post_users e f b)) ''message'' = Some (JStr ''Error creating user'')
             \<and> envelope (fst (post_users e f b)) ''error'' = Some (JStr m)"
    if "write_result e = Rejected (Error m) \<or> write_result e = Torn (Error m)"
      and "truthy (field b ''name'')" "truthy (field b ''email'')"
      and "\<forall>u\<in>set (readUsers f). \<not> strict_eq (fmlookup u ''email'') (field b ''email'')"
    using post_users_write_failed [OF that(2,3,4,1)]
    by (simp add: status_json_response envelope_json_response)
  have put: "status (fst (put_user e f userId b)) = 500
             \<and> envelope (fst (put_user e f userId b)) ''message'' = Some (JStr ''Error updating user'')
             \<and> envelope (fst (put_user e f userId b)) ''error'' = Some (JStr m)
             \<and> status (fst (delete_user e f userId)) = 500
             \<and> envelope (fst (delete_user e f userId)) ''message'' = Some (JStr ''Error deleting user'')
             \<and> envelope (fst (delete_user e f userId)) ''error'' = Some (JStr m)"
    if "write_result e = Rejected (Error m) \<or> write_result e = Torn (Error m)"
      and "findIndex (has_id userId) (readUsers f) = Some i"
    using put_user_write_failed [OF that(2,1)] delete_user_write_failed [OF that(2,1)]
    by (simp add: status_json_response envelope_json_response)
  from store listing post put show ?thesis by blast
qed

theorem C9_store_witness:
  "write_result env_rejected = Rejected (Error ''EACCES: permission denied'')
   \<and> truthy (field body_ada ''name'') \<and> truthy (field body_ada ''email'')
   \<and> readUsers no_file = []
   \<and> status (fst (post_users env_rejected no_file body_ada)) = 500
   \<and> envelope (fst (post_users env_rejected no_file body_ada)) ''error''
       = Some (JStr ''EACCES: permission denied'')
   \<and> findIndex (has_id ''1700000000000abcde'') (readUsers (Stored [user_ada])) = Some 0
   \<and> status (fst (put_user env_rejected (Stored [user_ada]) ''1700000000000abcde'' body_name_only)) = 500
   \<and> status (fst (delete_user env_rejected (Stored [user_ada]) ''1700000000000abcde'')) = 500
   \<and> envelope (fst (delete_user env_rejected (Stored [user_ada]) ''1700000000000abcde'')) ''error''
       = Some (JStr ''EACCES: permission denied'')"
proof -
  have w: "write_result env_rejected = Rejected (Error ''EACCES: permission denied'')"
    by (simp add: env_rejected_def)
  have t: "truthy (field body_ada ''name'')" "truthy (field body_ada ''email'')"
    by (simp_all add: body_ada_def)
  have n: "readUsers no_file = []"
    by (simp add: no_file_def readUsers_def)
  have i: "findIndex (has_id ''1700000000000abcde'') (readUsers (Stored [user_ada])) = Some 0"
    unfolding readUsers_user_ada by (simp add: has_id_def primitive_def user_ada_def)
  from C9_store [of _ no_file _ _ env_rejected "''EACCES: permission denied''" body_ada] w t n
  have p: "status (fst (post_users env_rejected no_file body_ada)) = 500
     \<and> envelope (fst (post_users env_rejected no_file body_ada)) ''error''
       = Some (JStr ''EACCES: permission denied'')"
    by simp
  from C9_store [of _ "Stored [user_ada]" _ _ env_rejected "''EACCES: permission denied''"
      body_name_only "''1700000000000abcde''" 0] w i
  have q: "status (fst (put_user env_rejected (Stored [user_ada]) ''1700000000000abcde'' body_name_only)) = 500
     \<and> status (fst (delete_user env_rejected (Stored [user_ada]) ''1700000000000abcde'')) = 500
     \<and> envelope (fst (delete_user env_rejected (Stored [user_ada]) ''1700000000000abcde'')) ''error''
       = Some (JStr ''EACCES: permission denied'')"
    by simp
  from w t n i p q show ?thesis by blast
qed

section \<open>Requests that are refused\<close>

text \<open>
  C6. When no stored user has the id of the path, update and delete both answer 404 with
  the message "User not found", and the file is the one they found: no write happens.
\<close>

theorem C6_unknown_id:
  assumes "\<forall>u\<in>set (readUsers f). \<not> has_id userId u"
  shows "put_user e f userId b = (not_found, f)
     \<and> delete_user e f userId = (not_found, f)
     \<and> status not_found = 404
     \<and> envelope not_found ''message'' = Some (JStr ''User not found'')"
proof -
  have "findIndex (has_id userId) (readUsers f) = None"
    using assms by (simp add: findIndex_None_iff)
  then show ?thesis
    by (simp add: put_user_def delete_user_def not_found_def status_json_response
        envelope_json_response)
qed

theorem C6_unknown_id_witness:
  "readUsers (Stored [user_ada]) = [user_ada] \<and> \<not> has_id ''42'' user_ada
   \<and> put_user env_ok (Stored [user_ada]) ''42'' body_name_only = (not_found, Stored [user_ada])
   \<and> delete_user env_ok (Stored [user_ada]) ''42'' = (not_found, Stored [user_ada])"
proof -
  have h: "\<forall>u\<in>set (readUsers (Stored [user_ada])). \<not> has_id ''42'' u"
    unfolding readUsers_user_ada by (simp add: has_id_def user_ada_def)
  have u: "readUsers (Stored [user_ada]) = [user_ada]" "\<not> has_id ''42'' user_ada"
    by (rule readUsers_user_ada) (simp add: has_id_def user_ada_def)
  from C6_unknown_id [OF h] u show ?thesis by simp
qed

text \<open>
  C3. Create answers 400 "Name and email are required fields" when the name or the email
  is missing (or otherwise falsy), and 400 "Email already exists" when both are given and
  a stored user has a strictly equal email. In both cases the file is the one found: no
  user is added.
\<close>

theorem C3_create_rejected:
  "(\<not> truthy (field b ''name'') \<or> \<not> truthy (field b ''email'')
      \<longrightarrow> post_users e f b = (required_fields, f))
   \<and> (truthy (field b ''name'') \<and> truthy (field b ''email'')
        \<and> (\<exists>u\<in>set (readUsers f). strict_eq (fmlookup u ''email'') (field b ''email''))
      \<longrightarrow> post_users e f b = (email_exists, f))
   \<and> status required_fields = 400
   \<and> envelope required_fields ''message'' = Some (JStr ''Name and email are required fields'')
   \<and> status email_exists = 400
   \<and> envelope email_exists ''message'' = Some (JStr ''Email already exists'')"
proof -
  have a: "post_users e f b = (required_fields, f)"
    if "\<not> truthy (field b ''name'') \<or> \<not> truthy (field b ''email'')"
    using that by (auto simp: post_users_def split: option.splits)
  have b: "post_users e f b = (email_exists, f)"
    if t: "truthy (field b ''name'')" "truthy (field b ''email'')"
      and d: "\<exists>u\<in>set (readUsers f). strict_eq (fmlookup u ''email'') (field b ''email'')"
  proof -
    from truthy_Some [OF t(1)] truthy_Some [OF t(2)]
    obtain name email where ne: "field b ''name'' = Some name" "field b ''email'' = Some email"
      by blast
    from d ne
    have "find (\<lambda>user. strict_eq (fmlookup user ''email'') (Some email)) (readUsers f) \<noteq> None"
      by (auto simp: find_None_iff)
    then obtain u
      where "find (\<lambda>user. strict_eq (fmlookup user ''email'') (Some email)) (readUsers f) = Some u"
      by auto
    with t ne show ?thesis by (simp add: post_users_def Let_def)
  qed
  show ?thesis
    using a b
    by (simp add: required_fields_def email_exists_def status_json_response
        envelope_json_response)
qed

theorem C3_create_rejected_witness:
  "\<not> truthy (field body_name_only ''email'')
   \<and> post_users env_ok (Stored [user_ada]) body_name_only = (required_fields, Stored [user_ada])
   \<and> truthy (field body_ada_email ''name'') \<and> truthy (field body_ada_email ''email'')
   \<and> (\<exists>u\<in>set (readUsers (Stored [user_ada])).
         strict_eq (fmlookup u ''email'') (field body_ada_email ''email''))
   \<and> post_users env_ok (Stored [user_ada]) body_ada_email = (email_exists, Stored [user_ada])"
proof -
  have h1: "\<not> truthy (field body_name_only ''email'')"
    by (simp add: body_name_only_def)
  have h2: "truthy (field body_ada_email ''name'')"
    by (simp add: body_ada_email_def)
  have h3: "truthy (field body_ada_email ''email'')"
    by (simp add: body_ada_email_def)
  have h4: "\<exists>u\<in>set (readUsers (Stored [user_ada])).
         strict_eq (fmlookup u ''email'') (field body_ada_email ''email'')"
    unfolding readUsers_user_ada by (simp add: user_ada_def body_ada_email_def primitive_def)
  from C3_create_rejected [of body_name_only env_ok "Stored [user_ada]"] h1
  have r1: "post_users env_ok (Stored [user_ada]) body_name_only = (required_fields, Stored [user_ada])"
    by blast
  from C3_create_rejected [of body_ada_email env_ok "Stored [user_ada]"] h2 h3 h4
  have r2: "post_users env_ok (Stored [user_ada]) body_ada_email = (email_exists, Stored [user_ada])"
    by blast
  from h1 r1 h2 h3 h4 r2 show ?thesis by blast
qed

section \<open>Create\<close>

text \<open>Reading a file that a handler wrote.\<close>

lemmas store_simps = readUsers_Stored serialised_obj_idem readUsers_serialised

lemma creatable_created:
  assumes "creatable e f b"
  shows "\<exists>name email. field b ''name'' = Some name \<and> field b ''email'' = Some email \<and>
    post_users e f b =
    (json_response 201
       [(''success'', JBool True),
        (''message'', JStr ''User created successfully''),
        (''data'', JObj (newUser e name email (field b ''age'') (field b ''country'')))],
     Stored (map serialised_obj
       (readUsers f @ [newUser e name email (field b ''age'') (field b ''country'')])))"
proof -
  from assms have t: "truthy (field b ''name'')" "truthy (field b ''email'')"
    by (simp_all add: creatable_def)
  from truthy_Some [OF t(1)] truthy_Some [OF t(2)]
  obtain name email where ne: "field b ''name'' = Some name" "field b ''email'' = Some email"
    by blast
  from assms ne t have "post_users e f b =
    (json_response 201
       [(''success'', JBool True),
        (''message'', JStr ''User created successfully''),
        (''data'', JObj (newUser e name email (field b ''age'') (field b ''country'')))],
     Stored (map serialised_obj
       (readUsers f @ [newUser e name email (field b ''age'') (field b ''country'')])))"
    by (intro post_users_created) (simp_all add: creatable_def)
  with ne show ?thesis by blast
qed

text \<open>
  C7, as amended. A successful create appends the new user at the end of the collection
  and answers 201 with that user as \<open>data\<close>. Its country is the supplied value when that
  is truthy and "Unknown" otherwise (omitted, or supplied as a falsy value); its age is the
  supplied value when that is truthy and null otherwise. A supplied value is stored as
  \<open>JSON.stringify\<close> writes it: a non-finite number, the value of a literal such as
  \<open>1e400\<close>, is stored as null. \<open>createdAt\<close> is the server time read first and
  \<open>updatedAt\<close> the server time read next while the user is built: the two are equal when
  the clock does not advance between the two reads, and \<open>createdAt\<close> is not later than
  \<open>updatedAt\<close> when the clock does not go back between them.
\<close>

theorem C7_create_appends:
  assumes "creatable e f b"
  shows "status (fst (post_users e f b)) = 201
     \<and> (\<exists>new. readUsers (snd (post_users e f b)) = readUsers f @ [new]
          \<and> envelope (fst (post_users e f b)) ''data'' = Some (JObj new)
          \<and> fmlookup new ''name'' = map_option serialised (field b ''name'')
          \<and> fmlookup new ''email'' = map_option serialised (field b ''email'')
          \<and> fmlookup new ''country'' =
               (if truthy (field b ''country'') then map_option serialised (field b ''country'')
                else Some (JStr ''Unknown''))
          \<and> fmlookup new ''age'' =
               (if truthy (field b ''age'') then map_option serialised (field b ''age'')
                else Some JNull)
          \<and> fmlookup new ''createdAt'' = Some (JStr (iso_first e))
          \<and> fmlookup new ''updatedAt'' = Some (JStr (iso_second e))
          \<and> (iso_first e = iso_second e \<longrightarrow>
                fmlookup new ''createdAt'' = fmlookup new ''updatedAt'')
          \<and> (iso_first e \<le> iso_second e \<longrightarrow>
                (\<exists>c u. fmlookup new ''createdAt'' = Some (JStr c)
                   \<and> fmlookup new ''updatedAt'' = Some (JStr u) \<and> c \<le> u)))
     \<and> serialised JInfinity = JNull \<and> serialised JNegInfinity = JNull
     \<and> serialised (JNum x) = JNum x \<and> serialised (JStr s) = JStr s"
proof -
  from creatable_created [OF assms] obtain name email where
    ne: "field b ''name'' = Some name" "field b ''email'' = Some email" and
    p: "post_users e f b =
    (json_response 201
       [(''success'', JBool True),
        (''message'', JStr ''User created successfully''),
        (''data'', JObj (newUser e name email (field b ''age'') (field b ''country'')))],
     Stored (map serialised_obj
       (readUsers f @ [newUser e name email (field b ''age'') (field b ''country'')])))"
    by blast
  let ?new = "serialised_obj (newUser e name email (field b ''age'') (field b ''country''))"
  have stored: "readUsers (snd (post_users e f b)) = readUsers f @ [?new]"
    unfolding p by (simp add: store_simps)
  have resp: "status (fst (post_users e f b)) = 201"
    "envelope (fst (post_users e f b)) ''data'' = Some (JObj ?new)"
    unfolding p by (simp_all add: status_json_response envelope_json_response serialised_obj_def)
  have country: "fmlookup ?new ''country'' =
      (if truthy (field b ''country'') then map_option serialised (field b ''country'')
       else Some (JStr ''Unknown''))"
    by (auto simp: fmlookup_serialised_obj newUser_def or_else_def split: option.splits)
  have age: "fmlookup ?new ''age'' =
      (if truthy (field b ''age'') then map_option serialised (field b ''age'') else Some JNull)"
    by (auto simp: fmlookup_serialised_obj newUser_def or_else_def split: option.splits)
  have rest: "fmlookup ?new ''name'' = map_option serialised (field b ''name'')"
    "fmlookup ?new ''email'' = map_option serialised (field b ''email'')"
    "fmlookup ?new ''createdAt'' = Some (JStr (iso_first e))"
    "fmlookup ?new ''updatedAt'' = Some (JStr (iso_second e))"
    using ne by (simp_all add: fmlookup_serialised_obj newUser_def)
  from stored resp country age rest show ?thesis by simp
qed

theorem C7_create_appends_witness:
  "creatable env_ok no_file body_big
   \<and> iso_first env_ok \<le> iso_second env_ok
   \<and> status (fst (post_users env_ok no_file body_big)) = 201
   \<and> length (readUsers (snd (post_users env_ok no_file body_big))) = 1
   \<and> truthy (field body_big ''age'')
   \<and> map_option serialised (field body_big ''age'') = Some JNull
   \<and> map_option serialised (field body_big ''country'') = Some (JStr ''FR'')
   \<and> creatable env_later (Stored [user_ada]) body_falsy
   \<and> iso_first env_later = iso_second env_later
   \<and> status (fst (post_users env_later (Stored [user_ada]) body_falsy)) = 201
   \<and> length (readUsers (snd (post_users env_later (Stored [user_ada]) body_falsy))) = 2"
proof -
  have h1: "creatable env_ok no_file body_big"
    by (simp add: creatable_def body_big_def no_file_def readUsers_def env_ok_def)
  have t1: "iso_first env_ok \<le> iso_second env_ok"
    by (simp add: env_ok_def)
  have a: "truthy (field body_big ''age'')"
    "map_option serialised (field body_big ''age'') = Some JNull"
    "map_option serialised (field body_big ''country'') = Some (JStr ''FR'')"
    by (simp_all add: body_big_def)
  have h2: "creatable env_later (Stored [user_ada]) body_falsy"
    unfolding creatable_def readUsers_user_ada
    by (simp add: body_falsy_def user_ada_def env_later_def primitive_def)
  have t2: "iso_first env_later = iso_second env_later"
    by (simp add: env_later_def)
  have n: "readUsers no_file = []"
    by (simp add: no_file_def readUsers_def)
  from C7_create_appends [OF h1] n
  have r1: "status (fst (post_users env_ok no_file body_big)) = 201
     \<and> length (readUsers (snd (post_users env_ok no_file body_big))) = 1"
    by auto
  from C7_create_appends [OF h2]
  have r2: "status (fst (post_users env_later (Stored [user_ada]) body_falsy)) = 201
     \<and> length (readUsers (snd (post_users env_later (Stored [user_ada]) body_falsy))) = 2"
    by (auto simp: readUsers_user_ada)
  from h1 t1 a h2 t2 r1 r2 show ?thesis by blast
qed

text \<open>
  The claim C7 as written fails in two respects. A supplied age or country is not always
  stored as supplied: for the supplied age \<open>0\<close> and the supplied country \<open>""\<close> the create
  succeeds and stores null and "Unknown". And \<open>createdAt\<close> and \<open>updatedAt\<close> are not one
  creation time: they come from two clock reads, and when the clock advances between
  them the stored stamps differ.
\<close>

theorem C7_supplied_value_counterexample:
  "status (fst (post_users env_ok no_file body_falsy)) = 201
   \<and> field body_falsy ''age'' = Some (JNum 0)
   \<and> fmlookup (last (readUsers (snd (post_users env_ok no_file body_falsy)))) ''age'' \<noteq> Some (JNum 0)
   \<and> field body_falsy ''country'' = Some (JStr '''')
   \<and> fmlookup (last (readUsers (snd (post_users env_ok no_file body_falsy)))) ''country''
       \<noteq> Some (JStr '''')
   \<and> fmlookup (last (readUsers (snd (post_users env_ok no_file body_falsy)))) ''createdAt''
       = Some (JStr ''2023-11-14T22:14:20.000Z'')
   \<and> fmlookup (last (readUsers (snd (post_users env_ok no_file body_falsy)))) ''updatedAt''
       = Some (JStr ''2023-11-14T22:14:20.001Z'')
   \<and> fmlookup (last (readUsers (snd (post_users env_ok no_file body_falsy)))) ''createdAt''
       \<noteq> fmlookup (last (readUsers (snd (post_users env_ok no_file body_falsy)))) ''updatedAt''"
proof -
  have n: "readUsers no_file = []"
    by (simp add: no_file_def readUsers_def)
  have p: "post_users env_ok no_file body_falsy =
    (json_response 201
       [(''success'', JBool True),
        (''message'', JStr ''User created successfully''),
        (''data'', JObj (newUser env_ok (JStr ''Bob'') (JStr ''bob@example.com'')
            (field body_falsy ''age'') (field body_falsy ''country'')))],
     Stored (map serialised_obj
       (readUsers no_file @ [newUser env_ok (JStr ''Bob'') (JStr ''bob@example.com'')
            (field body_falsy ''age'') (field body_falsy ''country'')])))"
    by (rule post_users_created) (simp_all add: body_falsy_def n env_ok_def)
  have l: "last (readUsers (snd (post_users env_ok no_file body_falsy)))
      = serialised_obj (newUser env_ok (JStr ''Bob'') (JStr ''bob@example.com'')
            (field body_falsy ''age'') (field body_falsy ''country''))"
    unfolding p by (simp add: store_simps)
  have s: "status (fst (post_users env_ok no_file body_falsy)) = 201"
    unfolding p by (simp add: status_json_response)
  have b: "field body_falsy ''age'' = Some (JNum 0)" "field body_falsy ''country'' = Some (JStr '''')"
    by (simp_all add: body_falsy_def)
  show ?thesis
    unfolding l b using s
    by (simp add: fmlookup_serialised_obj newUser_def or_else_def env_ok_def)
qed

text \<open>
  C10. Create decides the optional fields by truthiness, not by presence: whenever the
  age of the request is falsy (among others \<open>0\<close>, the empty string, \<open>false\<close>, \<open>null\<close>, or
  absent) the stored age is null, and whenever the country is falsy the stored country is
  "Unknown".
\<close>

theorem C10_truthiness:
  assumes "creatable e f b"
  shows "(\<not> truthy (field b ''age'') \<longrightarrow>
            fmlookup (last (readUsers (snd (post_users e f b)))) ''age'' = Some JNull)
     \<and> (\<not> truthy (field b ''country'') \<longrightarrow>
            fmlookup (last (readUsers (snd (post_users e f b)))) ''country'' = Some (JStr ''Unknown''))
     \<and> \<not> truthy (Some (JNum 0)) \<and> \<not> truthy (Some (JStr '''')) \<and> \<not> truthy (Some (JBool False))
     \<and> \<not> truthy (Some JNull) \<and> \<not> truthy None"
proof -
  from creatable_created [OF assms] obtain name email where
    "post_users e f b =
    (json_response 201
       [(''success'', JBool True),
        (''message'', JStr ''User created successfully''),
        (''data'', JObj (newUser e name email (field b ''age'') (field b ''country'')))],
     Stored (map serialised_obj
       (readUsers f @ [newUser e name email (field b ''age'') (field b ''country'')])))"
    by blast
  then have l: "last (readUsers (snd (post_users e f b)))
      = serialised_obj (newUser e name email (field b ''age'') (field b ''country''))"
    by (simp add: store_simps)
  show ?thesis
    unfolding l
    by (auto simp: fmlookup_serialised_obj newUser_def or_else_def split: option.splits)
qed

theorem C10_truthiness_witness:
  "creatable env_ok no_file body_falsy
   \<and> field body_falsy ''age'' = Some (JNum 0) \<and> field body_falsy ''country'' = Some (JStr '''')
   \<and> fmlookup (last (readUsers (snd (post_users env_ok no_file body_falsy)))) ''age'' = Some JNull
   \<and> fmlookup (last (readUsers (snd (post_users env_ok no_file body_falsy)))) ''country''
       = Some (JStr ''Unknown'')"
proof -
  have h: "creatable env_ok no_file body_falsy"
    by (simp add: creatable_def body_falsy_def no_file_def readUsers_def env_ok_def)
  have a: "field body_falsy ''age'' = Some (JNum 0)" "field body_falsy ''country'' = Some (JStr '''')"
    by (simp_all add: body_falsy_def)
  from C10_truthiness [OF h] h a show ?thesis by simp
qed

section \<open>Generated identifiers\<close>

text \<open>The decimal rendering is injective, and never empty.\<close>

lemma digits_nonempty: "digits n \<noteq> []"
  by (subst digits.simps) simp

lemma digit_char_inj: "m < 10 \<Longrightarrow> n < 10 \<Longrightarrow> ''0123456789'' ! m = ''0123456789'' ! n \<Longrightarrow> m = n"
proof -
  assume a: "m < 10" "n < 10" "''0123456789'' ! m = ''0123456789'' ! n"
  have d: "distinct ''0123456789''" by simp
  have l: "length ''0123456789'' = 10" by simp
  from a d l show "m = n"
    by (metis nth_eq_iff_index_eq)
qed

lemma digit_char_not_minus: "n < 10 \<Longrightarrow> ''0123456789'' ! n \<noteq> CHR ''-''"
proof -
  assume "n < 10"
  then have "''0123456789'' ! n \<in> set ''0123456789''"
    by (intro nth_mem) simp
  then show ?thesis by auto
qed

lemma digits_inj: "digits m = digits n \<Longrightarrow> m = n"
proof (induction m arbitrary: n rule: digits.induct)
  case (1 m)
  show ?case
  proof (cases "m < 10")
    case True
    note m = this
    show ?thesis
    proof (cases "n < 10")
      case True
      with m "1.prems" show ?thesis
        by (simp add: digits.simps [of m] digits.simps [of n] digit_char_inj)
    next
      case False
      with m "1.prems" have "digits (n div 10) = []"
        by (simp add: digits.simps [of m] digits.simps [of n])
      then show ?thesis by (simp add: digits_nonempty)
    qed
  next
    case False
    note m = this
    show ?thesis
    proof (cases "n < 10")
      case True
      with m "1.prems" have "digits (m div 10) = []"
        by (simp add: digits.simps [of m] digits.simps [of n])
      then show ?thesis by (simp add: digits_nonempty)
    next
      case False
      with m "1.prems" have eq: "digits (m div 10) = digits (n div 10)"
        and c: "''0123456789'' ! (m mod 10) = ''0123456789'' ! (n mod 10)"
        by (simp_all add: digits.simps [of m] digits.simps [of n])
      from "1.IH" [OF m eq] have d: "m div 10 = n div 10" .
      from c have r: "m mod 10 = n mod 10"
        by (intro digit_char_inj) simp_all
      from d r show ?thesis
        by (metis div_mult_mod_eq)
    qed
  qed
qed

lemma hd_digits_not_minus: "hd (digits n) \<noteq> CHR ''-''"
proof (induction n rule: digits.induct)
  case (1 n)
  show ?case
  proof (cases "n < 10")
    case True
    then show ?thesis
      by (simp add: digits.simps [of n] digit_char_not_minus)
  next
    case False
    with 1 show ?thesis
      by (simp add: digits.simps [of n] digits_nonempty)
  qed
qed

lemma toString_inj: "toString a = toString b \<Longrightarrow> a = b"
proof -
  assume eq: "toString a = toString b"
  consider "a < 0" "b < 0" | "a < 0" "\<not> b < 0" | "\<not> a < 0" "b < 0" | "\<not> a < 0" "\<not> b < 0"
    by blast
  then show "a = b"
  proof cases
    case 1
    with eq have "digits (nat (- a)) = digits (nat (- b))" by (simp add: toString_def)
    from digits_inj [OF this] 1 show ?thesis by simp
  next
    case 2
    with eq have "CHR ''-'' # digits (nat (- a)) = digits (nat b)"
      by (simp add: toString_def)
    then have "hd (digits (nat b)) = CHR ''-''"
      by (metis list.sel(1))
    then show ?thesis by (simp add: hd_digits_not_minus)
  next
    case 3
    with eq have "CHR ''-'' # digits (nat (- b)) = digits (nat a)"
      by (simp add: toString_def)
    then have "hd (digits (nat a)) = CHR ''-''"
      by (metis list.sel(1))
    then show ?thesis by (simp add: hd_digits_not_minus)
  next
    case 4
    with eq have "digits (nat a) = digits (nat b)" by (simp add: toString_def)
    from digits_inj [OF this] 4 show ?thesis by simp
  qed
qed

lemma toString_nonempty: "toString i \<noteq> []"
  by (simp add: toString_def digits_nonempty)

lemma generateId_eq_iff:
  assumes "length (toString (date_now e')) = length (toString (date_now e))"
  shows "generateId e' = generateId e \<longleftrightarrow>
    date_now e' = date_now e \<and> random_suffix e' = random_suffix e"
proof
  assume "generateId e' = generateId e"
  with assms have "toString (date_now e') = toString (date_now e)"
    and s: "random_suffix e' = random_suffix e"
    by (simp_all add: generateId_def)
  from toString_inj [OF this(1)] s
  show "date_now e' = date_now e \<and> random_suffix e' = random_suffix e" by simp
next
  assume "date_now e' = date_now e \<and> random_suffix e' = random_suffix e"
  then show "generateId e' = generateId e" by (simp add: generateId_def)
qed

lemma has_id_unique: "has_id s u \<Longrightarrow> has_id s' u \<Longrightarrow> s = s'"
  by (cases "fmlookup u ''_id''") (auto simp: has_id_def)

text \<open>
  C2, as amended. A successful create answers 201, and the \<open>_id\<close> of the created user is
  present and non-empty. It is not equal to an \<open>_id\<close> issued before, or present in the
  collection, that the generator made at a clock reading with the same number of digits
  and from a different clock reading or a different random suffix. It is equal to an
  \<open>_id\<close> made from the same clock reading and the same random suffix: nothing compares it
  with the ids issued before or with those in the collection.
\<close>

theorem C2_create_id:
  assumes "creatable e f b"
  shows "status (fst (post_users e f b)) = 201
     \<and> (\<exists>new. envelope (fst (post_users e f b)) ''data'' = Some (JObj new)
          \<and> readUsers (snd (post_users e f b)) = readUsers f @ [new]
          \<and> fmlookup new ''_id'' = Some (JStr (generateId e)))
     \<and> generateId e \<noteq> []
     \<and> (\<forall>e'. length (toString (date_now e')) = length (toString (date_now e)) \<longrightarrow>
            (generateId e' = generateId e \<longleftrightarrow>
               date_now e' = date_now e \<and> random_suffix e' = random_suffix e))
     \<and> ((\<forall>u\<in>set (readUsers f). \<exists>e'. has_id (generateId e') u
              \<and> length (toString (date_now e')) = length (toString (date_now e))
              \<and> (date_now e' \<noteq> date_now e \<or> random_suffix e' \<noteq> random_suffix e))
          \<longrightarrow> (\<forall>u\<in>set (readUsers f). \<not> has_id (generateId e) u))"
proof -
  from creatable_created [OF assms] obtain name email where
    p: "post_users e f b =
    (json_response 201
       [(''success'', JBool True),
        (''message'', JStr ''User created successfully''),
        (''data'', JObj (newUser e name email (field b ''age'') (field b ''country'')))],
     Stored (map serialised_obj
       (readUsers f @ [newUser e name email (field b ''age'') (field b ''country'')])))"
    by blast
  let ?new = "serialised_obj (newUser e name email (field b ''age'') (field b ''country''))"
  have stored: "readUsers (snd (post_users e f b)) = readUsers f @ [?new]"
    unfolding p by (simp add: store_simps)
  have resp: "status (fst (post_users e f b)) = 201"
    "envelope (fst (post_users e f b)) ''data'' = Some (JObj ?new)"
    unfolding p by (simp_all add: status_json_response envelope_json_response serialised_obj_def)
  have id: "fmlookup ?new ''_id'' = Some (JStr (generateId e))"
    by (simp add: fmlookup_serialised_obj newUser_def)
  have ne: "generateId e \<noteq> []"
    by (simp add: generateId_def toString_nonempty)
  have fresh: "\<forall>u\<in>set (readUsers f). \<not> has_id (generateId e) u"
    if others: "\<forall>u\<in>set (readUsers f). \<exists>e'. has_id (generateId e') u
              \<and> length (toString (date_now e')) = length (toString (date_now e))
              \<and> (date_now e' \<noteq> date_now e \<or> random_suffix e' \<noteq> random_suffix e)"
  proof
    fix u assume "u \<in> set (readUsers f)"
    with others obtain e' where e': "has_id (generateId e') u"
      "length (toString (date_now e')) = length (toString (date_now e))"
      "date_now e' \<noteq> date_now e \<or> random_suffix e' \<noteq> random_suffix e"
      by blast
    from generateId_eq_iff [OF e'(2)] e'(3) have "generateId e' \<noteq> generateId e" by blast
    with e'(1) show "\<not> has_id (generateId e) u"
      using has_id_unique by blast
  qed
  from stored resp id ne fresh generateId_eq_iff show ?thesis by blast
qed

theorem C2_create_id_witness:
  "creatable env_ok after_bob body_ada
   \<and> length (readUsers after_bob) = 1
   \<and> has_id (generateId env_later) (readUsers after_bob ! 0)
   \<and> length (toString (date_now env_later)) = length (toString (date_now env_ok))
   \<and> date_now env_later \<noteq> date_now env_ok
   \<and> status (fst (post_users env_ok after_bob body_ada)) = 201
   \<and> generateId env_ok = ''1700000060000k3x9q''
   \<and> generateId env_later \<noteq> generateId env_ok
   \<and> \<not> has_id (generateId env_ok) (readUsers after_bob ! 0)"
proof -
  have n: "readUsers no_file = []"
    by (simp add: no_file_def readUsers_def)
  have "post_users env_later no_file body_falsy =
    (json_response 201
       [(''success'', JBool True),
        (''message'', JStr ''User created successfully''),
        (''data'', JObj (newUser env_later (JStr ''Bob'') (JStr ''bob@example.com'')
            (field body_falsy ''age'') (field body_falsy ''country'')))],
     Stored (map serialised_obj
       (readUsers no_file @ [newUser env_later (JStr ''Bob'') (JStr ''bob@example.com'')
            (field body_falsy ''age'') (field body_falsy ''country'')])))"
    by (rule post_users_created) (simp_all add: body_falsy_def n env_later_def)
  then have r: "readUsers after_bob = [serialised_obj (newUser env_later (JStr ''Bob'')
      (JStr ''bob@example.com'') (field body_falsy ''age'') (field body_falsy ''country''))]"
    by (simp add: after_bob_def n store_simps)
  have l: "length (readUsers after_bob) = 1"
    by (simp add: r)
  have i: "has_id (generateId env_later) (readUsers after_bob ! 0)"
    by (simp add: r has_id_def fmlookup_serialised_obj newUser_def primitive_def)
  have d: "length (toString (date_now env_later)) = length (toString (date_now env_ok))"
    "date_now env_later \<noteq> date_now env_ok"
    by (simp_all add: env_later_def env_ok_def toString_def digits.simps)
  have h: "creatable env_ok after_bob body_ada"
    by (simp add: creatable_def r body_ada_def env_ok_def fmlookup_serialised_obj newUser_def
        body_falsy_def primitive_def)
  have g: "generateId env_ok = ''1700000060000k3x9q''"
    by (simp add: generateId_def env_ok_def toString_def digits.simps)
  have all: "\<forall>u\<in>set (readUsers after_bob). \<exists>e'. has_id (generateId e') u
              \<and> length (toString (date_now e')) = length (toString (date_now env_ok))
              \<and> (date_now e' \<noteq> date_now env_ok \<or> random_suffix e' \<noteq> random_suffix env_ok)"
    using i d by (auto simp: r)
  from C2_create_id [OF h] all d
  have c: "status (fst (post_users env_ok after_bob body_ada)) = 201"
    "generateId env_later \<noteq> generateId env_ok"
    "\<forall>u\<in>set (readUsers after_bob). \<not> has_id (generateId env_ok) u"
    by blast+
  from c(3) have "\<not> has_id (generateId env_ok) (readUsers after_bob ! 0)"
    by (simp add: r)
  with h l i d g c(1,2) show ?thesis by blast
qed

text \<open>
  The claim C2 as written, that the \<open>_id\<close> differs from every \<open>_id\<close> issued before and
  from those in the collection, fails when two creates see the same clock reading and draw
  the same random suffix: both answer 201 and both stored users carry the same \<open>_id\<close>.
\<close>

theorem C2_same_id_twice_counterexample:
  "status (fst (post_users env_ok no_file body_ada)) = 201
   \<and> status (fst (post_users env_ok after_ada body_falsy)) = 201
   \<and> envelope (fst (post_users env_ok no_file body_ada)) ''data''
       = Some (JObj (readUsers (snd (post_users env_ok after_ada body_falsy)) ! 0))
   \<and> envelope (fst (post_users env_ok after_ada body_falsy)) ''data''
       = Some (JObj (readUsers (snd (post_users env_ok after_ada body_falsy)) ! 1))
   \<and> fmlookup (readUsers (snd (post_users env_ok after_ada body_falsy)) ! 0) ''_id''
       = fmlookup (readUsers (snd (post_users env_ok after_ada body_falsy)) ! 1) ''_id''
   \<and> fmlookup (readUsers (snd (post_users env_ok after_ada body_falsy)) ! 1) ''_id''
       = Some (JStr ''1700000060000k3x9q'')"
proof -
  let ?ada = "newUser env_ok (JStr ''Ada'') (JStr ''ada@example.com'')
      (field body_ada ''age'') (field body_ada ''country'')"
  let ?bob = "newUser env_ok (JStr ''Bob'') (JStr ''bob@example.com'')
      (field body_falsy ''age'') (field body_falsy ''country'')"
  have n: "readUsers no_file = []"
    by (simp add: no_file_def readUsers_def)
  have p1: "post_users env_ok no_file body_ada =
    (json_response 201
       [(''success'', JBool True),
        (''message'', JStr ''User created successfully''),
        (''data'', JObj ?ada)],
     Stored (map serialised_obj (readUsers no_file @ [?ada])))"
    by (rule post_users_created) (simp_all add: body_ada_def n env_ok_def)
  then have r1: "readUsers after_ada = [serialised_obj ?ada]"
    by (simp add: after_ada_def n store_simps)
  have p2: "post_users env_ok after_ada body_falsy =
    (json_response 201
       [(''success'', JBool True),
        (''message'', JStr ''User created successfully''),
        (''data'', JObj ?bob)],
     Stored (map serialised_obj (readUsers after_ada @ [?bob])))"
    by (rule post_users_created)
       (simp_all add: body_falsy_def body_ada_def r1 env_ok_def fmlookup_serialised_obj
          newUser_def primitive_def)
  have r2: "readUsers (snd (post_users env_ok after_ada body_falsy))
      = [serialised_obj ?ada, serialised_obj ?bob]"
    unfolding p2 by (simp add: r1 store_simps)
  have g: "generateId env_ok = ''1700000060000k3x9q''"
    by (simp add: generateId_def env_ok_def toString_def digits.simps)
  have e1: "envelope (fst (post_users env_ok no_file body_ada)) ''data''
      = Some (JObj (serialised_obj ?ada))"
    unfolding p1 by (simp add: envelope_json_response serialised_obj_def)
  have e2: "envelope (fst (post_users env_ok after_ada body_falsy)) ''data''
      = Some (JObj (serialised_obj ?bob))"
    unfolding p2 by (simp add: envelope_json_response serialised_obj_def)
  have s: "status (fst (post_users env_ok no_file body_ada)) = 201"
    "status (fst (post_users env_ok after_ada body_falsy)) = 201"
    unfolding p1 p2 by (simp_all add: status_json_response)
  have i: "fmlookup (serialised_obj ?ada) ''_id'' = Some (JStr ''1700000060000k3x9q'')"
    "fmlookup (serialised_obj ?bob) ''_id'' = Some (JStr ''1700000060000k3x9q'')"
    by (simp_all add: fmlookup_serialised_obj newUser_def g)
  show ?thesis
    unfolding r2 e1 e2 using s i by simp
qed

section \<open>Update\<close>

text \<open>The properties that the spread takes from an array body.\<close>

lemma digits_chars: "set (digits n) \<subseteq> set ''0123456789''"
proof (induction n rule: digits.induct)
  case (1 n)
  have d: "''0123456789'' ! k \<in> set ''0123456789''" if "k < 10" for k
    using that by (intro nth_mem) simp
  show ?case
  proof (cases "n < 10")
    case True
    with d [of n] show ?thesis
      by (subst digits.simps) simp
  next
    case False
    with 1 d [of "n mod 10"] show ?thesis
      by (subst digits.simps) simp
  qed
qed

lemma digits_not_updatedAt: "digits n \<noteq> ''updatedAt''"
proof
  assume "digits n = ''updatedAt''"
  with digits_chars [of n] have "set ''updatedAt'' \<subseteq> set ''0123456789''" by simp
  then show False by simp
qed

lemma distinct_indices: "distinct (map digits [0..<n])"
  by (simp add: distinct_map inj_on_def) (meson digits_inj)

lemma own_entries_array_index:
  assumes "n < length xs"
  shows "fmlookup (own_entries (BArr xs)) (digits n) = Some (xs ! n)"
proof -
  have "map_of (zip (map digits [0..<length xs]) xs) (map digits [0..<length xs] ! n) = Some (xs ! n)"
    using assms by (intro map_of_zip_nth) (simp_all add: distinct_indices)
  with assms show ?thesis by (simp add: fmlookup_of_list)
qed

lemma own_entries_array_other:
  assumes "\<forall>n<length xs. k \<noteq> digits n"
  shows "fmlookup (own_entries (BArr xs)) k = None"
proof -
  from assms have "k \<notin> set (map digits [0..<length xs])" by auto
  then have "map_of (zip (map digits [0..<length xs]) xs) k = None"
    by (subst map_of_zip_is_None) simp_all
  then show ?thesis by (simp add: fmlookup_of_list)
qed

text \<open>
  C1, as amended. An update of an existing user stores, at the user's index, the shallow
  merge of the body's properties over the stored ones with \<open>updatedAt\<close> set last to the
  server time, as \<open>JSON.stringify\<close> writes it: every property other than \<open>updatedAt\<close> is
  the body's when the body has it and the stored one otherwise, and a non-finite number of
  the body, the value of a literal such as \<open>1e400\<close>, is stored and returned as null. The
  properties of an array body are its elements under their decimal indices. In
  particular an \<open>_id\<close> or \<open>createdAt\<close> of the body replaces the stored value, and an
  \<open>updatedAt\<close> of the body is never kept. The 200 response carries the stored result.
\<close>

theorem C1_update_merges:
  assumes "findIndex (has_id userId) (readUsers f) = Some i" and "write_result e = Written"
  shows "(\<forall>m k. b = BObj m \<longrightarrow>
            fmlookup (readUsers (snd (put_user e f userId b)) ! i) k =
              (if k = ''updatedAt'' then Some (JStr (iso_first e))
               else case fmlookup m k of
                      Some v \<Rightarrow> Some (serialised v)
                    | None \<Rightarrow> fmlookup (readUsers f ! i) k))
     \<and> (\<forall>xs n. b = BArr xs \<and> n < length xs \<longrightarrow>
            fmlookup (readUsers (snd (put_user e f userId b)) ! i) (digits n)
              = Some (serialised (xs ! n)))
     \<and> (\<forall>xs k. b = BArr xs \<and> k \<noteq> ''updatedAt'' \<and> (\<forall>n<length xs. k \<noteq> digits n) \<longrightarrow>
            fmlookup (readUsers (snd (put_user e f userId b)) ! i) k
              = fmlookup (readUsers f ! i) k)
     \<and> (\<forall>m v. b = BObj m \<and> fmlookup m ''_id'' = Some v \<longrightarrow>
            fmlookup (readUsers (snd (put_user e f userId b)) ! i) ''_id'' = Some (serialised v))
     \<and> (\<forall>m v. b = BObj m \<and> fmlookup m ''createdAt'' = Some v \<longrightarrow>
            fmlookup (readUsers (snd (put_user e f userId b)) ! i) ''createdAt''
              = Some (serialised v))
     \<and> fmlookup (readUsers (snd (put_user e f userId b)) ! i) ''updatedAt''
         = Some (JStr (iso_first e))
     \<and> envelope (fst (put_user e f userId b)) ''data''
         = Some (JObj (readUsers (snd (put_user e f userId b)) ! i))
     \<and> status (fst (put_user e f userId b)) = 200
     \<and> serialised JInfinity = JNull \<and> serialised JNegInfinity = JNull
     \<and> serialised (JNum x) = JNum x \<and> serialised (JStr s) = JStr s"
proof -
  let ?old = "readUsers f ! i"
  let ?new = "readUsers (snd (put_user e f userId b)) ! i"
  from findIndex_Some [OF assms(1)] have i: "i < length (readUsers f)" by simp
  have p: "put_user e f userId b =
    (json_response 200
       [(''success'', JBool True),
        (''message'', JStr ''User updated successfully''),
        (''data'', JObj (merged e ?old b))],
     Stored (map serialised_obj ((readUsers f)[i := merged e ?old b])))"
    by (rule put_user_updated [OF assms])
  have new: "?new = serialised_obj (merged e ?old b)"
    unfolding p using i by (simp add: store_simps)
  have resp: "status (fst (put_user e f userId b)) = 200"
    "envelope (fst (put_user e f userId b)) ''data'' = Some (JObj (serialised_obj (merged e ?old b)))"
    unfolding p by (simp_all add: status_json_response envelope_json_response serialised_obj_def)
  have look: "fmlookup ?new k =
      (if k = ''updatedAt'' then Some (JStr (iso_first e))
       else case fmlookup (own_entries b) k of
              Some v \<Rightarrow> Some (serialised v)
            | None \<Rightarrow> fmlookup ?old k)" for k
    unfolding new
    by (simp add: fmlookup_serialised_obj fmlookup_merged readUsers_lookup_serialised [OF i]
        split: option.splits)
  have obj: "fmlookup ?new k =
      (if k = ''updatedAt'' then Some (JStr (iso_first e))
       else case fmlookup m k of Some v \<Rightarrow> Some (serialised v) | None \<Rightarrow> fmlookup ?old k)"
    if "b = BObj m" for m k
    using look [of k] that by simp
  have arr1: "fmlookup ?new (digits n) = Some (serialised (xs ! n))"
    if "b = BArr xs" "n < length xs" for xs n
    using look [of "digits n"] that own_entries_array_index [OF that(2)]
    by (simp add: digits_not_updatedAt)
  have arr2: "fmlookup ?new k = fmlookup ?old k"
    if "b = BArr xs" "k \<noteq> ''updatedAt''" "\<forall>n<length xs. k \<noteq> digits n" for xs k
    using look [of k] that(1,2) own_entries_array_other [OF that(3)]
    by simp
  have id: "fmlookup ?new ''_id'' = Some (serialised v)"
    if "b = BObj m" "fmlookup m ''_id'' = Some v" for m v
    using obj [OF that(1), of "''_id''"] that(2) by simp
  have cr: "fmlookup ?new ''createdAt'' = Some (serialised v)"
    if "b = BObj m" "fmlookup m ''createdAt'' = Some v" for m v
    using obj [OF that(1), of "''createdAt''"] that(2) by simp
  have up: "fmlookup ?new ''updatedAt'' = Some (JStr (iso_first e))"
    using look [of "''updatedAt''"] by simp
  have data: "envelope (fst (put_user e f userId b)) ''data'' = Some (JObj ?new)"
    using resp(2) new by simp
  have ser: "serialised JInfinity = JNull \<and> serialised JNegInfinity = JNull
     \<and> serialised (JNum x) = JNum x \<and> serialised (JStr s) = JStr s"
    by simp
  from obj arr1 arr2 id cr up data resp(1) ser show ?thesis
    by blast
qed

theorem C1_update_merges_witness:
  "findIndex (has_id ''1700000000000abcde'') (readUsers (Stored [user_ada])) = Some 0
   \<and> write_result env_ok = Written
   \<and> fmlookup (readUsers (snd (put_user env_ok (Stored [user_ada]) ''1700000000000abcde'' body_overwrite)) ! 0) ''_id''
       = Some (JStr ''evil'')
   \<and> fmlookup (readUsers (snd (put_user env_ok (Stored [user_ada]) ''1700000000000abcde'' body_overwrite)) ! 0) ''createdAt''
       = Some (JStr ''1999-01-01T00:00:00.000Z'')
   \<and> fmlookup (readUsers (snd (put_user env_ok (Stored [user_ada]) ''1700000000000abcde'' body_overwrite)) ! 0) ''updatedAt''
       = Some (JStr ''2023-11-14T22:14:20.000Z'')
   \<and> fmlookup (readUsers (snd (put_user env_ok (Stored [user_ada]) ''1700000000000abcde'' body_overwrite)) ! 0) ''email''
       = Some (JStr ''ada@example.com'')
   \<and> fmlookup (readUsers (snd (put_user env_ok (Stored [user_ada]) ''1700000000000abcde'' body_array)) ! 0) ''0''
       = Some (JStr ''a'')
   \<and> fmlookup (readUsers (snd (put_user env_ok (Stored [user_ada]) ''1700000000000abcde'' body_array)) ! 0) ''1''
       = Some JNull
   \<and> fmlookup (readUsers (snd (put_user env_ok (Stored [user_ada]) ''1700000000000abcde'' body_array)) ! 0) ''name''
       = Some (JStr ''Ada'')"
proof -
  let ?m = "fmap_of_list
     [(''_id'', JStr ''evil''),
      (''createdAt'', JStr ''1999-01-01T00:00:00.000Z''),
      (''updatedAt'', JStr ''1999-01-01T00:00:00.000Z'')]"
  have h1: "findIndex (has_id ''1700000000000abcde'') (readUsers (Stored [user_ada])) = Some 0"
    unfolding readUsers_user_ada by (simp add: has_id_def primitive_def user_ada_def)
  have h2: "write_result env_ok = Written"
    by (simp add: env_ok_def)
  have b: "body_overwrite = BObj ?m"
    by (simp add: body_overwrite_def)
  have e: "fmlookup ?m ''_id'' = Some (JStr ''evil'')"
      "fmlookup ?m ''createdAt'' = Some (JStr ''1999-01-01T00:00:00.000Z'')"
      "fmlookup ?m ''email'' = None"
    by simp_all
  have u: "fmlookup (readUsers (Stored [user_ada]) ! 0) ''email'' = Some (JStr ''ada@example.com'')"
    "fmlookup (readUsers (Stored [user_ada]) ! 0) ''name'' = Some (JStr ''Ada'')"
    unfolding readUsers_user_ada by (simp_all add: user_ada_def)
  have t: "iso_first env_ok = ''2023-11-14T22:14:20.000Z''"
    by (simp add: env_ok_def)
  have a: "body_array = BArr [JStr ''a'', JInfinity]"
    by (simp add: body_array_def)
  have d: "digits 0 = ''0''" "digits 1 = ''1''"
    by (simp_all add: digits.simps)
  have k: "\<forall>n<length [JStr ''a'', JInfinity]. ''name'' \<noteq> digits n"
  proof (intro allI impI notI)
    fix n assume "''name'' = digits n"
    then have "set (digits n) = set ''name''" by simp
    with digits_chars [of n] have "set ''name'' \<subseteq> set ''0123456789''" by simp
    then show False by simp
  qed
  let ?arr = "readUsers (snd (put_user env_ok (Stored [user_ada]) ''1700000000000abcde'' body_array)) ! 0"
  note T = C1_update_merges [OF h1 h2, of body_array]
  from T have A: "\<And>xs n. body_array = BArr xs \<Longrightarrow> n < length xs \<Longrightarrow>
      fmlookup ?arr (digits n) = Some (serialised (xs ! n))"
    by blast
  from T have B: "\<And>xs k. body_array = BArr xs \<Longrightarrow> k \<noteq> ''updatedAt'' \<Longrightarrow>
      \<forall>n<length xs. k \<noteq> digits n \<Longrightarrow>
      fmlookup ?arr k = fmlookup (readUsers (Stored [user_ada]) ! 0) k"
    by blast
  from C1_update_merges [OF h1 h2, of body_overwrite] b e u(1) t
  have r1: "fmlookup (readUsers (snd (put_user env_ok (Stored [user_ada]) ''1700000000000abcde'' body_overwrite)) ! 0) ''_id''
       = Some (JStr ''evil'')
   \<and> fmlookup (readUsers (snd (put_user env_ok (Stored [user_ada]) ''1700000000000abcde'' body_overwrite)) ! 0) ''createdAt''
       = Some (JStr ''1999-01-01T00:00:00.000Z'')
   \<and> fmlookup (readUsers (snd (put_user env_ok (Stored [user_ada]) ''1700000000000abcde'' body_overwrite)) ! 0) ''updatedAt''
       = Some (JStr ''2023-11-14T22:14:20.000Z'')
   \<and> fmlookup (readUsers (snd (put_user env_ok (Stored [user_ada]) ''1700000000000abcde'' body_overwrite)) ! 0) ''email''
       = Some (JStr ''ada@example.com'')"
    by simp
  from A [OF a, of 0] A [OF a, of 1] B [OF a _ k] d u(2)
  have r2: "fmlookup (readUsers (snd (put_user env_ok (Stored [user_ada]) ''1700000000000abcde'' body_array)) ! 0) ''0''
       = Some (JStr ''a'')
   \<and> fmlookup (readUsers (snd (put_user env_ok (Stored [user_ada]) ''1700000000000abcde'' body_array)) ! 0) ''1''
       = Some JNull
   \<and> fmlookup (readUsers (snd (put_user env_ok (Stored [user_ada]) ''1700000000000abcde'' body_array)) ! 0) ''name''
       = Some (JStr ''Ada'')"
    by simp
  from h1 h2 r1 r2 show ?thesis by blast
qed

text \<open>
  The claim C1 as written, that the stored result equals the merge and that the values
  of the body replace the stored ones, fails for a body with the number that
  \<open>JSON.parse\<close> yields for \<open>1e400\<close>: the merge holds that number, and the update answers 200
  and stores null in its place.
\<close>

theorem C1_overflow_counterexample:
  "status (fst (put_user env_ok (Stored [user_ada]) ''1700000000000abcde'' body_overflow)) = 200
   \<and> fmlookup (own_entries body_overflow) ''age'' = Some JInfinity
   \<and> fmlookup (merged env_ok user_ada body_overflow) ''age'' = Some JInfinity
   \<and> fmlookup (readUsers (snd (put_user env_ok (Stored [user_ada]) ''1700000000000abcde'' body_overflow)) ! 0) ''age''
       = Some JNull
   \<and> envelope (fst (put_user env_ok (Stored [user_ada]) ''1700000000000abcde'' body_overflow)) ''data''
       = Some (JObj (readUsers (snd (put_user env_ok (Stored [user_ada]) ''1700000000000abcde'' body_overflow)) ! 0))"
proof -
  have h1: "findIndex (has_id ''1700000000000abcde'') (readUsers (Stored [user_ada])) = Some 0"
    unfolding readUsers_user_ada by (simp add: has_id_def primitive_def user_ada_def)
  have h2: "write_result env_ok = Written"
    by (simp add: env_ok_def)
  have p: "put_user env_ok (Stored [user_ada]) ''1700000000000abcde'' body_overflow =
    (json_response 200
       [(''success'', JBool True),
        (''message'', JStr ''User updated successfully''),
        (''data'', JObj (merged env_ok user_ada body_overflow))],
     Stored (map serialised_obj [merged env_ok user_ada body_overflow]))"
    using put_user_updated [OF h1 h2, of body_overflow] by (simp add: readUsers_user_ada)
  have m: "fmlookup (merged env_ok user_ada body_overflow) ''age'' = Some JInfinity"
    "fmlookup (own_entries body_overflow) ''age'' = Some JInfinity"
    by (simp_all add: fmlookup_merged body_overflow_def)
  have r: "readUsers (snd (put_user env_ok (Stored [user_ada]) ''1700000000000abcde'' body_overflow)) ! 0
      = serialised_obj (merged env_ok user_ada body_overflow)"
    unfolding p by (simp add: store_simps)
  have d: "envelope (fst (put_user env_ok (Stored [user_ada]) ''1700000000000abcde'' body_overflow)) ''data''
      = Some (JObj (serialised_obj (merged env_ok user_ada body_overflow)))"
    unfolding p by (simp add: envelope_json_response serialised_obj_def)
  have s: "status (fst (put_user env_ok (Stored [user_ada]) ''1700000000000abcde'' body_overflow)) = 200"
    unfolding p by (simp add: status_json_response)
  show ?thesis
    unfolding r d using m s by (simp add: fmlookup_serialised_obj)
qed

section \<open>Delete\<close>

text \<open>What a listing returns, and the file after a delete.\<close>

lemma serialised_listing:
  "serialised (JArr (map JObj (readUsers f))) = JArr (map JObj (readUsers f))"
proof -
  have "map (\<lambda>u. JObj (fmmap serialised u)) (readUsers f)
      = map JObj (map serialised_obj (readUsers f))"
    by (simp add: serialised_obj_def)
  then show ?thesis
    by (simp add: comp_def readUsers_serialised)
qed

lemma get_users_listing:
  "status (fst (get_users f)) = 200"
  "envelope (fst (get_users f)) ''count'' = Some (JNum (real (length (readUsers f))))"
  "envelope (fst (get_users f)) ''data'' = Some (JArr (map JObj (readUsers f)))"
  "snd (get_users f) = f"
  using serialised_listing [of f]
  by (simp_all add: get_users_def Let_def status_json_response envelope_json_response)

lemma serialised_sublist:
  "map serialised_obj (take i (readUsers f) @ drop j (readUsers f))
     = take i (readUsers f) @ drop j (readUsers f)"
proof -
  have "map serialised_obj (take i (readUsers f) @ drop j (readUsers f))
      = take i (map serialised_obj (readUsers f)) @ drop j (map serialised_obj (readUsers f))"
    by (simp add: take_map drop_map)
  then show ?thesis by (simp only: readUsers_serialised)
qed

lemma readUsers_after_delete:
  "readUsers (Stored (map serialised_obj (take i (readUsers f) @ drop j (readUsers f))))
     = take i (readUsers f) @ drop j (readUsers f)"
  by (simp only: readUsers_Stored serialised_sublist)

text \<open>
  C4, as amended. A delete of an id that some stored user has answers 200 with the removed
  user, the first one with that id; the collection is one shorter; the remaining users
  keep their relative order, and a subsequent listing returns exactly them. The removed
  \<open>_id\<close> no longer appears among them provided no later user of the collection carried
  the same \<open>_id\<close>.
\<close>

theorem C4_delete_removes:
  assumes "findIndex (has_id userId) (readUsers f) = Some i" and "write_result e = Written"
  shows "status (fst (delete_user e f userId)) = 200
     \<and> envelope (fst (delete_user e f userId)) ''data'' = Some (JObj (readUsers f ! i))
     \<and> has_id userId (readUsers f ! i)
     \<and> Suc (length (readUsers (snd (delete_user e f userId)))) = length (readUsers f)
     \<and> (\<forall>j<length (readUsers (snd (delete_user e f userId))).
           readUsers (snd (delete_user e f userId)) ! j
             = readUsers f ! (if j < i then j else Suc j))
     \<and> envelope (fst (get_users (snd (delete_user e f userId)))) ''data''
         = Some (JArr (map JObj (readUsers (snd (delete_user e f userId)))))
     \<and> ((\<forall>j. i < j \<and> j < length (readUsers f) \<longrightarrow> \<not> has_id userId (readUsers f ! j))
          \<longrightarrow> (\<forall>u\<in>set (readUsers (snd (delete_user e f userId))). \<not> has_id userId u))"
proof -
  let ?old = "readUsers f"
  let ?new = "take i ?old @ drop (Suc i) ?old"
  from findIndex_Some [OF assms(1)]
  have i: "i < length ?old" and hit: "has_id userId (?old ! i)"
    and before: "\<forall>j<i. \<not> has_id userId (?old ! j)"
    by simp_all
  have d: "delete_user e f userId =
    (json_response 200
       [(''success'', JBool True),
        (''message'', JStr ''User deleted successfully''),
        (''data'', JObj (?old ! i))],
     Stored (map serialised_obj ?new))"
    by (rule delete_user_deleted [OF assms])
  have stored: "readUsers (snd (delete_user e f userId)) = ?new"
    unfolding d by (simp only: snd_conv readUsers_after_delete)
  have resp: "status (fst (delete_user e f userId)) = 200"
    "envelope (fst (delete_user e f userId)) ''data'' = Some (JObj (?old ! i))"
    unfolding d using readUsers_nth_serialised [OF i]
    by (simp_all add: status_json_response envelope_json_response serialised_obj_def)
  have len: "Suc (length ?new) = length ?old"
    using i by simp
  have nth: "?new ! j = ?old ! (if j < i then j else Suc j)" if "j < length ?new" for j
    using that i by (auto simp: nth_append min_def)
  have gone: "\<forall>u\<in>set ?new. \<not> has_id userId u"
    if after: "\<forall>j. i < j \<and> j < length ?old \<longrightarrow> \<not> has_id userId (?old ! j)"
  proof
    fix u assume "u \<in> set ?new"
    then obtain j where j: "j < length ?new" "u = ?new ! j"
      unfolding in_set_conv_nth by blast
    show "\<not> has_id userId u"
    proof (cases "j < i")
      case True
      with j nth [OF j(1)] before show ?thesis by simp
    next
      case False
      with j len have "i < Suc j \<and> Suc j < length ?old" by simp
      with after have "\<not> has_id userId (?old ! Suc j)" by blast
      with False j nth [OF j(1)] show ?thesis by simp
    qed
  qed
  show ?thesis
    unfolding stored resp get_users_listing using hit len nth gone
    by simp
qed

theorem C4_delete_removes_witness:
  "findIndex (has_id ''1700000000000abcde'') (readUsers (Stored [user_ada])) = Some 0
   \<and> write_result env_ok = Written
   \<and> length (readUsers (Stored [user_ada])) = 1
   \<and> status (fst (delete_user env_ok (Stored [user_ada]) ''1700000000000abcde'')) = 200
   \<and> envelope (fst (delete_user env_ok (Stored [user_ada]) ''1700000000000abcde'')) ''data''
       = Some (JObj user_ada)
   \<and> readUsers (snd (delete_user env_ok (Stored [user_ada]) ''1700000000000abcde'')) = []"
proof -
  have h1: "findIndex (has_id ''1700000000000abcde'') (readUsers (Stored [user_ada])) = Some 0"
    unfolding readUsers_user_ada by (simp add: has_id_def primitive_def user_ada_def)
  have h2: "write_result env_ok = Written"
    by (simp add: env_ok_def)
  have h3: "\<forall>j. 0 < j \<and> j < length (readUsers (Stored [user_ada]))
          \<longrightarrow> \<not> has_id ''1700000000000abcde'' (readUsers (Stored [user_ada]) ! j)"
    by (simp add: readUsers_user_ada)
  have l: "length (readUsers (Stored [user_ada])) = 1"
    by (simp add: readUsers_user_ada)
  from C4_delete_removes [OF h1 h2] h1 h2 h3 l show ?thesis
    by (simp add: readUsers_user_ada)
qed

text \<open>
  The claim C4 as written, that the removed \<open>_id\<close> never appears in a subsequent listing,
  fails for a collection in which two users carry the same \<open>_id\<close>. Such a collection arises
  through the handlers alone: two creates, then an update of the second user whose body
  carries the \<open>_id\<close> of the first. The delete answers 200 and the listing still contains
  a user with that \<open>_id\<close>.
\<close>

theorem C4_duplicate_id_counterexample:
  "map status (fst (run no_file dup_steps)) = [201, 201, 200, 200, 200]
   \<and> length (readUsers (snd (run no_file dup_steps))) = 1
   \<and> has_id ''1700000060000k3x9q'' (readUsers (snd (run no_file dup_steps)) ! 0)
   \<and> envelope (last (fst (run no_file dup_steps))) ''data''
       = Some (JArr [JObj (readUsers (snd (run no_file dup_steps)) ! 0)])"
  by (simp add: dup_steps_def no_file_def env_ok_def env_later_def body_ada_def body_falsy_def
      body_take_id_def post_users_def put_user_def delete_user_def get_users_def Let_def
      readUsers_def json_response_def envelope_def newUser_def or_else_def generateId_def
      toString_def digits.simps has_id_def primitive_def merged_def serialised_obj_def
      fmmap_fmupd)

section \<open>Timestamps along a run\<close>





















section \<open>Round trip\<close>

lemma post_users_201:
  assumes "status (fst (post_users e f b)) = 201"
  shows "\<exists>new. envelope (fst (post_users e f b)) ''data'' = Some (JObj new)
           \<and> readUsers (snd (post_users e f b)) = readUsers f @ [new]"
proof -
  have "creatable e f b"
  proof (rule ccontr)
    assume n: "\<not> creatable e f b"
    have s: "status (server_error m err) \<noteq> 201" for m err
      by (simp add: status_server_error)
    have "status (fst (post_users e f b)) \<noteq> 201"
    proof (cases "truthy (field b ''name'') \<and> truthy (field b ''email'')")
      case False
      then have "post_users e f b = (required_fields, f)"
        by (auto simp: post_users_def split: option.splits)
      then show ?thesis by (simp add: required_fields_def status_json_response)
    next
      case True
      with truthy_Some [of "field b ''name''"] truthy_Some [of "field b ''email''"]
      obtain name email where ne: "field b ''name'' = Some name" "field b ''email'' = Some email"
        by blast
      show ?thesis
      proof (cases "find (\<lambda>user. strict_eq (fmlookup user ''email'') (Some email)) (readUsers f)")
        case (Some u)
        with True ne have "post_users e f b = (email_exists, f)"
          by (simp add: post_users_def Let_def)
        then show ?thesis by (simp add: email_exists_def status_json_response)
      next
        case None
        with n True ne have w: "write_result e \<noteq> Written"
          by (auto simp: creatable_def find_None_iff)
        then obtain err where "write_result e = Rejected err \<or> write_result e = Torn err"
          by (cases "write_result e") auto
        with None True ne have "fst (post_users e f b) = server_error ''Error creating user'' err"
          by (auto simp: post_users_def Let_def)
        with s show ?thesis by simp
      qed
    qed
    with assms show False by simp
  qed
  from creatable_created [OF this] obtain name email where
    p: "post_users e f b =
    (json_response 201
       [(''success'', JBool True),
        (''message'', JStr ''User created successfully''),
        (''data'', JObj (newUser e name email (field b ''age'') (field b ''country'')))],
     Stored (map serialised_obj
       (readUsers f @ [newUser e name email (field b ''age'') (field b ''country'')])))"
    by blast
  let ?new = "serialised_obj (newUser e name email (field b ''age'') (field b ''country''))"
  have "readUsers (snd (post_users e f b)) = readUsers f @ [?new]"
    unfolding p by (simp add: store_simps)
  moreover have "envelope (fst (post_users e f b)) ''data'' = Some (JObj ?new)"
    unfolding p by (simp add: envelope_json_response serialised_obj_def)
  ultimately show ?thesis by blast
qed

lemma run_creates:
  "run f0 (create_steps cs) = (resps, f) \<Longrightarrow> \<forall>r\<in>set resps. status r = 201
   \<Longrightarrow> \<exists>created. length created = length cs
         \<and> map (\<lambda>r. envelope r ''data'') resps = map (\<lambda>u. Some (JObj u)) created
         \<and> readUsers f = readUsers f0 @ created"
proof (induction cs arbitrary: f0 resps)
  case Nil
  then show ?case by (simp add: create_steps_def)
next
  case (Cons c cs)
  obtain e b where c: "c = (e, b)" by (cases c)
  obtain resp f1 where h: "post_users e f0 b = (resp, f1)" by (cases "post_users e f0 b")
  obtain resps' where r: "run f1 (create_steps cs) = (resps', f)" and rs: "resps = resp # resps'"
    using Cons.prems(1) c h by (auto simp: create_steps_def split: prod.splits)
  from Cons.prems(2) rs have ok: "status resp = 201" "\<forall>r\<in>set resps'. status r = 201"
    by simp_all
  from post_users_201 [of e f0 b] h ok(1) obtain new where
    new: "envelope resp ''data'' = Some (JObj new)" "readUsers f1 = readUsers f0 @ [new]"
    by auto
  from Cons.IH [OF r ok(2)] obtain created where
    cr: "length created = length cs"
      "map (\<lambda>r. envelope r ''data'') resps' = map (\<lambda>u. Some (JObj u)) created"
      "readUsers f = readUsers f1 @ created"
    by blast
  from new cr rs have "length (new # created) = length (c # cs)
         \<and> map (\<lambda>r. envelope r ''data'') resps = map (\<lambda>u. Some (JObj u)) (new # created)
         \<and> readUsers f = readUsers f0 @ (new # created)"
    by simp
  then show ?case by blast
qed

text \<open>
  C8. Starting from an empty collection, after \<open>N\<close> creates that all answered 201 the
  listing answers 200 with \<open>count\<close> equal to \<open>N\<close> and with \<open>data\<close> of length \<open>N\<close>, and
  \<open>data\<close> holds exactly the users that the creates returned, in the order of the creates.
\<close>

theorem C8_roundtrip:
  assumes "readUsers f0 = []" and "run f0 (create_steps cs) = (resps, f)"
    and "\<forall>r\<in>set resps. status r = 201"
  shows "status (fst (get_users f)) = 200
     \<and> envelope (fst (get_users f)) ''count'' = Some (JNum (real (length cs)))
     \<and> (\<exists>users. envelope (fst (get_users f)) ''data'' = Some (JArr (map JObj users))
           \<and> length users = length cs
           \<and> map (\<lambda>r. envelope r ''data'') resps = map (\<lambda>u. Some (JObj u)) users)"
proof -
  from run_creates [OF assms(2,3)] assms(1) obtain created where
    cr: "length created = length cs"
      "map (\<lambda>r. envelope r ''data'') resps = map (\<lambda>u. Some (JObj u)) created"
      "readUsers f = created"
    by auto
  have "status (fst (get_users f)) = 200"
    by (rule get_users_listing)
  moreover have "envelope (fst (get_users f)) ''count'' = Some (JNum (real (length cs)))"
    using cr by (simp add: get_users_listing)
  moreover have "envelope (fst (get_users f)) ''data'' = Some (JArr (map JObj created))"
    using cr by (simp add: get_users_listing)
  ultimately show ?thesis using cr by blast
qed

theorem C8_roundtrip_witness:
  "readUsers no_file = []
   \<and> map status (fst (run no_file (create_steps two_creates))) = [201, 201]
   \<and> status (fst (get_users (snd (run no_file (create_steps two_creates))))) = 200
   \<and> envelope (fst (get_users (snd (run no_file (create_steps two_creates))))) ''count''
       = Some (JNum 2)"
proof -
  have h1: "readUsers no_file = []"
    by (simp add: no_file_def readUsers_def)
  have h2: "run no_file (create_steps two_creates)
      = (fst (run no_file (create_steps two_creates)), snd (run no_file (create_steps two_creates)))"
    by simp
  have m: "map status (fst (run no_file (create_steps two_creates))) = [201, 201]"
    by (simp add: create_steps_def two_creates_def post_users_def Let_def body_ada_def
        body_falsy_def no_file_def readUsers_def env_ok_def env_later_def status_json_response
        newUser_def serialised_obj_def fmmap_fmupd primitive_def)
  then have h3: "\<forall>r\<in>set (fst (run no_file (create_steps two_creates))). status r = 201"
    by (metis (no_types, lifting) in_set_conv_nth length_map nth_map nth_mem set_ConsD
        empty_iff list.set(1))
  have n: "length two_creates = 2"
    by (simp add: two_creates_def)
  from C8_roundtrip [OF h1 h2 h3] h1 m n show ?thesis
    by simp
qed

end
